theory Spec2Isabelle
  imports Main
begin

section \<open>The AgentCore streaming proxy (lambda/agentcore-proxy/index.ts)\<close>

text \<open>
  The Lambda function parses one API Gateway event into a client request, opens an HTTP
  response stream, invokes the AgentCore runtime and pipes the runtime's response stream
  to the client. Everything the function does to the outside is recorded here as a trace:
  the operations on the response stream, in the order they are issued, and the commands
  sent to the backend. What the platform decides (the JSON codec, the base64 decoder, the
  identifier generator, the backend's answer, whether a write on the response stream
  throws) is a field of the environment record, so that every theorem holds for every
  behaviour of the platform.
\<close>

subsection \<open>JavaScript values\<close>

text \<open>
  A value produced by \<^verbatim>\<open>JSON.parse\<close>. A number is held as its decimal literal;
  the rounding of a literal to a binary64 value is not modelled. An object is an
  association list, read with \<^const>\<open>map_of\<close>. \<^verbatim>\<open>undefined\<close> is \<^const>\<open>None\<close> of an
  optional value.
\<close>

datatype json =
    JNull
  | JBool bool
  | JNum string
  | JStr string
  | JArr "json list"
  | JObj "(string \<times> json) list"

text \<open>What a \<^verbatim>\<open>throw\<close> carries: an instance of \<^verbatim>\<open>Error\<close> with its message, or any other value.\<close>

datatype js_thrown = JsError string | JsValue json

text \<open>The mantissa of a number literal: the text before the exponent mark.\<close>

definition mantissa :: "string \<Rightarrow> string" where
  "mantissa t = takeWhile (\<lambda>c. c \<noteq> CHR ''e'' \<and> c \<noteq> CHR ''E'') t"

text \<open>Truthiness, as \<^verbatim>\<open>||\<close>, \<^verbatim>\<open>&&\<close>, \<^verbatim>\<open>!\<close> and \<^verbatim>\<open>if\<close> read a value.\<close>

fun truthy :: "json \<Rightarrow> bool" where
  "truthy JNull = False"
| "truthy (JBool b) = b"
| "truthy (JNum t) = (\<exists>d \<in> set (mantissa t). d \<in> set ''123456789'')"
| "truthy (JStr s) = (s \<noteq> [])"
| "truthy (JArr xs) = True"
| "truthy (JObj kvs) = True"

definition truthy_opt :: "json option \<Rightarrow> bool" where
  "truthy_opt v = (case v of None \<Rightarrow> False | Some x \<Rightarrow> truthy x)"

subsection \<open>The request and the platform\<close>

text \<open>
  \<^verbatim>\<open>APIGatewayProxyEvent\<close>, the fields the function reads: \<^verbatim>\<open>body: string | null\<close>,
  \<^verbatim>\<open>isBase64Encoded: boolean\<close>, \<^verbatim>\<open>queryStringParameters: {[name]: string} | null\<close>.
\<close>

record event =
  body :: "string option"
  isBase64Encoded :: bool
  queryStringParameters :: "(string \<rightharpoonup> string) option"

text \<open>\<^verbatim>\<open>interface ClientRequest\<close>, with the values the fields hold at run time.\<close>

record client_request =
  sessionId :: json
  prompt :: "json option"

text \<open>The input of \<^verbatim>\<open>InvokeAgentRuntimeCommand\<close>.\<close>

record invoke_command =
  agentRuntimeArn :: string
  runtimeSessionId :: json
  payload :: string
  qualifier :: string

text \<open>
  The backend's response stream: the chunks it emits, in order, and then either a clean
  end (\<^const>\<open>None\<close>) or the error it fails with.
\<close>

record readable =
  chunks :: "string list"
  failure :: "js_thrown option"

record response_metadata =
  statusCode :: nat
  headers :: "(string \<times> string) list"

text \<open>
  One operation on the response stream: \<^verbatim>\<open>awslambda.HttpResponseStream.from\<close> with its
  metadata, a call of \<^verbatim>\<open>write\<close> that returned, a call of \<^verbatim>\<open>write\<close> that threw,
  \<^verbatim>\<open>destroy\<close> (called by the stream library, never by the function itself) and
  \<^verbatim>\<open>end\<close>. \<^verbatim>\<open>from\<close> decorates the stream it is given and returns it, so
  \<^verbatim>\<open>httpStream\<close> and \<^verbatim>\<open>responseStream\<close> are one channel. A \<^verbatim>\<open>write\<close> on a stream
  that has been destroyed or ended returns, but its chunk goes nowhere. \<^verbatim>\<open>end\<close> is taken
  to return normally: a Node stream reports a failure of \<^verbatim>\<open>end\<close> through its
  \<^verbatim>\<open>error\<close> event, not by throwing. The \<^verbatim>\<open>console\<close> calls are left out.
\<close>

datatype chan_op =
    HttpFrom response_metadata
  | Write string
  | WriteFailed string
  | Destroy
  | End

text \<open>
  The platform. \<open>JSON_parse\<close> returns the message of the \<^verbatim>\<open>SyntaxError\<close> on the left;
  \<open>type_error_message\<close> is the message of the \<^verbatim>\<open>TypeError\<close> the engine raises for a
  property access on the given value; \<open>send\<close> is \<^verbatim>\<open>bedrockClient.send\<close>;
  \<open>write_fault\<close> says, from the operations so far and the chunk, whether \<^verbatim>\<open>write\<close>
  throws and what.
\<close>

record env =
  JSON_parse :: "string \<Rightarrow> string + json"
  JSON_stringify :: "json \<Rightarrow> string"
  base64_to_utf8 :: "string \<Rightarrow> string"
  randomUUID :: string
  type_error_message :: "json \<Rightarrow> string"
  send :: "invoke_command \<Rightarrow> js_thrown + readable"
  write_fault :: "chan_op list \<Rightarrow> string \<Rightarrow> js_thrown option"

subsection \<open>Module initialisation (lines 10-22)\<close>

record module_state =
  agentCoreArn :: string
  region :: string

definition env_or :: "string option \<Rightarrow> string \<Rightarrow> string" where
  "env_or v d = (case v of None \<Rightarrow> d | Some s \<Rightarrow> if s = [] then d else s)"

definition module_init :: "(string \<rightharpoonup> string) \<Rightarrow> js_thrown + module_state" where
  "module_init process_env =
     (if env_or (process_env ''AGENT_ARN'') [] = []
      then Inl (JsError ''AGENT_ARN must be set in environment variables'')
      else Inr \<lparr>agentCoreArn = env_or (process_env ''AGENT_ARN'') [],
                region = env_or (process_env ''AWS_REGION'') ''us-west-2''\<rparr>)"

subsection \<open>parseClientRequest (lines 123-151)\<close>

text \<open>The default prompt of line 144, as the bytes of its UTF-8 encoding.\<close>

definition default_prompt :: string where
  "default_prompt =
     [CHR 0xE3, CHR 0x81, CHR 0x93, CHR 0xE3, CHR 0x82, CHR 0x93, CHR 0xE3, CHR 0x81, CHR 0xAB,
      CHR 0xE3, CHR 0x81, CHR 0xA1, CHR 0xE3, CHR 0x81, CHR 0xAF, CHR 0xE3, CHR 0x80, CHR 0x81,
      CHR 0xE5, CHR 0x85, CHR 0x83, CHR 0xE6, CHR 0xB0, CHR 0x97, CHR 0xE3, CHR 0x81, CHR 0xA7,
      CHR 0xE3, CHR 0x81, CHR 0x99, CHR 0xE3, CHR 0x81, CHR 0x8B, CHR 0xEF, CHR 0xBC, CHR 0x9F]"

text \<open>
  \<^verbatim>\<open>event.body\<close> as a condition is false for \<^verbatim>\<open>null\<close> and for the empty string alike;
  \<open>body_text\<close> is the body with \<^verbatim>\<open>null\<close> read as the empty string, so the condition
  is \<open>body_text ev \<noteq> []\<close>. \<open>query_param\<close> is \<^verbatim>\<open>event.queryStringParameters?.name\<close>.
\<close>

definition body_text :: "event \<Rightarrow> string" where
  "body_text ev = (case body ev of None \<Rightarrow> [] | Some b \<Rightarrow> b)"

definition query_param :: "event \<Rightarrow> string \<Rightarrow> string option" where
  "query_param ev name = (case queryStringParameters ev of None \<Rightarrow> None | Some q \<Rightarrow> q name)"

definition query_text :: "event \<Rightarrow> string \<Rightarrow> string" where
  "query_text ev name = (case query_param ev name of None \<Rightarrow> [] | Some v \<Rightarrow> v)"

definition parse_json :: "env \<Rightarrow> string \<Rightarrow> js_thrown + json" where
  "parse_json e s = (case JSON_parse e s of Inl msg \<Rightarrow> Inl (JsError msg) | Inr v \<Rightarrow> Inr v)"

text \<open>The object literal of lines 137-140; a property whose value is \<^verbatim>\<open>undefined\<close> is left out.\<close>

definition query_object :: "event \<Rightarrow> json" where
  "query_object ev =
     JObj ((''prompt'', JStr (query_text ev ''prompt'')) #
           (case query_param ev ''sessionId'' of None \<Rightarrow> [] | Some s \<Rightarrow> [(''sessionId'', JStr s)]))"

text \<open>Lines 127-145: the value \<^verbatim>\<open>params\<close> holds after the chain of conditions.\<close>

definition read_params :: "env \<Rightarrow> event \<Rightarrow> js_thrown + json" where
  "read_params e ev =
     (if isBase64Encoded ev \<and> body_text ev \<noteq> [] then parse_json e (base64_to_utf8 e (body_text ev))
      else if body_text ev \<noteq> [] then parse_json e (body_text ev)
      else if query_text ev ''prompt'' \<noteq> [] then Inr (query_object ev)
      else Inr (JObj [(''prompt'', JStr default_prompt)]))"

text \<open>\<^verbatim>\<open>params.sessionId || randomUUID()\<close>.\<close>

definition session_or_fresh :: "env \<Rightarrow> json option \<Rightarrow> json" where
  "session_or_fresh e v =
     (case v of None \<Rightarrow> JStr (randomUUID e)
      | Some x \<Rightarrow> if truthy x then x else JStr (randomUUID e))"

text \<open>
  Lines 148-150, and the two properties the handler reads from the result. Reading
  \<^verbatim>\<open>sessionId\<close> of \<^verbatim>\<open>null\<close> raises a \<^verbatim>\<open>TypeError\<close>; so does, in the strict mode of a
  module, the assignment to a property of a string, a number or a boolean. An array has
  neither property and takes the assignment.
\<close>

fun assign_sessionId :: "env \<Rightarrow> json \<Rightarrow> js_thrown + client_request" where
  "assign_sessionId e (JObj kvs) =
     Inr \<lparr>sessionId = session_or_fresh e (map_of kvs ''sessionId''), prompt = map_of kvs ''prompt''\<rparr>"
| "assign_sessionId e (JArr xs) =
     Inr \<lparr>sessionId = session_or_fresh e None, prompt = None\<rparr>"
| "assign_sessionId e v = Inl (JsError (type_error_message e v))"

definition parseClientRequest :: "env \<Rightarrow> event \<Rightarrow> js_thrown + client_request" where
  "parseClientRequest e ev =
     (case read_params e ev of Inl err \<Rightarrow> Inl err | Inr params \<Rightarrow> assign_sessionId e params)"

subsection \<open>The handler (lines 51-118)\<close>

definition responseMetadata :: response_metadata where
  "responseMetadata =
     \<lparr>statusCode = 200,
      headers = [(''Content-Type'', ''text/event-stream''),
                 (''Cache-Control'', ''no-cache''),
                 (''X-Accel-Buffering'', ''no'')]\<rparr>"

text \<open>
  \<^verbatim>\<open>JSON.stringify({prompt: requestParams.prompt})\<close>: a property whose value is
  \<^verbatim>\<open>undefined\<close> is not serialised.
\<close>

definition payload_object :: "json option \<Rightarrow> json" where
  "payload_object p = (case p of None \<Rightarrow> JObj [] | Some v \<Rightarrow> JObj [(''prompt'', v)])"

definition invokeCommand :: "module_state \<Rightarrow> env \<Rightarrow> client_request \<Rightarrow> invoke_command" where
  "invokeCommand m e requestParams =
     \<lparr>agentRuntimeArn = agentCoreArn m,
      runtimeSessionId = sessionId requestParams,
      payload = JSON_stringify e (payload_object (prompt requestParams)),
      qualifier = ''DEFAULT''\<rparr>"

text \<open>
  How a piece of the function ends: it completes, it throws an exception that the
  enclosing \<^verbatim>\<open>catch\<close> receives, or an exception escapes outside the function's control
  (an uncaught exception of the process; the function's promise is never settled).
\<close>

datatype completion = Normal | Throws js_thrown | Escapes js_thrown

text \<open>
  \<^verbatim>\<open>asyncPipeline(source, httpStream)\<close>, that is Node's \<^verbatim>\<open>stream.pipeline\<close> as a
  promise. Every chunk of the source is written to the destination in order, and the
  destination is ended when the source ends. When the source fails, the library destroys
  the destination and rejects the promise with the source's error. A \<^verbatim>\<open>write\<close> that
  throws does so inside the library's \<^verbatim>\<open>data\<close> listener, outside the promise: the
  exception escapes and nothing more is done. The result is how the relay ended and the
  operations so far.
\<close>

fun asyncPipeline ::
  "env \<Rightarrow> string list \<Rightarrow> js_thrown option \<Rightarrow> chan_op list \<Rightarrow> completion \<times> chan_op list" where
  "asyncPipeline e [] None tr = (Normal, tr @ [End])"
| "asyncPipeline e [] (Some err) tr = (Throws err, tr @ [Destroy])"
| "asyncPipeline e (c # cs) f tr =
     (case write_fault e tr c of
        None \<Rightarrow> asyncPipeline e cs f (tr @ [Write c])
      | Some err \<Rightarrow> (Escapes err, tr @ [WriteFailed c]))"

text \<open>What one invocation did: the operations on the response stream and the backend calls.\<close>

record run =
  ops :: "chan_op list"
  calls :: "invoke_command list"

text \<open>The \<^verbatim>\<open>try\<close> block, lines 59-101: how it ended and what it did.\<close>

definition try_block :: "module_state \<Rightarrow> env \<Rightarrow> event \<Rightarrow> completion \<times> run" where
  "try_block m e ev =
     (case parseClientRequest e ev of
        Inl err \<Rightarrow> (Throws err, \<lparr>ops = [], calls = []\<rparr>)
      | Inr requestParams \<Rightarrow>
          (case send e (invokeCommand m e requestParams) of
             Inl err \<Rightarrow>
               (Throws err, \<lparr>ops = [HttpFrom responseMetadata],
                           calls = [invokeCommand m e requestParams]\<rparr>)
           | Inr runtimeResponse \<Rightarrow>
               (case asyncPipeline e (chunks runtimeResponse) (failure runtimeResponse)
                       [HttpFrom responseMetadata] of
                  (r, tr) \<Rightarrow> (r, \<lparr>ops = tr, calls = [invokeCommand m e requestParams]\<rparr>))))"

definition generic_frame :: string where
  \<open>generic_frame = ''data: {"error": "Internal server error"}\<newline>\<newline>''\<close>

definition error_frame :: "string \<Rightarrow> string" where
  \<open>error_frame message = ''data: {"error": "'' @ message @ ''"}\<newline>\<newline>''\<close>

text \<open>
  Lines 107-110, the inner \<^verbatim>\<open>try\<close>: the first write, and for an \<^verbatim>\<open>Error\<close> the second;
  the result is what a write threw, if one did, and the operations so far.
\<close>

definition report_writes :: "env \<Rightarrow> js_thrown \<Rightarrow> chan_op list \<Rightarrow> js_thrown option \<times> chan_op list" where
  "report_writes e error tr =
     (case write_fault e tr generic_frame of
        Some streamError \<Rightarrow> (Some streamError, tr @ [WriteFailed generic_frame])
      | None \<Rightarrow>
          (case error of
             JsError message \<Rightarrow>
               (case write_fault e (tr @ [Write generic_frame]) (error_frame message) of
                  Some streamError \<Rightarrow>
                    (Some streamError, tr @ [Write generic_frame, WriteFailed (error_frame message)])
                | None \<Rightarrow> (None, tr @ [Write generic_frame, Write (error_frame message)]))
           | JsValue v \<Rightarrow> (None, tr @ [Write generic_frame])))"

text \<open>
  The \<^verbatim>\<open>catch\<close> block, lines 102-116: the inner \<^verbatim>\<open>catch\<close> only logs \<^verbatim>\<open>streamError\<close>,
  and \<^verbatim>\<open>finally\<close> ends the stream. The result is what leaves the block as an exception
  (nothing does) and the operations.
\<close>

definition catch_block :: "env \<Rightarrow> js_thrown \<Rightarrow> chan_op list \<Rightarrow> js_thrown option \<times> chan_op list" where
  "catch_block e error tr = (case report_writes e error tr of (streamError, tr') \<Rightarrow> (None, tr' @ [End]))"

text \<open>
  The handler: the exception that is left unhandled, if any, and what the invocation did.
  \<^const>\<open>None\<close> means that the handler's promise resolves. What the \<^verbatim>\<open>try\<close> block throws
  goes to the \<^verbatim>\<open>catch\<close> block; what escapes from the relay reaches neither.
\<close>

definition handler :: "module_state \<Rightarrow> env \<Rightarrow> event \<Rightarrow> js_thrown option \<times> run" where
  "handler m e ev =
     (case try_block m e ev of
        (Normal, r) \<Rightarrow> (None, r)
      | (Throws error, r) \<Rightarrow>
          (case catch_block e error (ops r) of (x, tr) \<Rightarrow> (x, r\<lparr>ops := tr\<rparr>))
      | (Escapes err, r) \<Rightarrow> (Some err, r))"

text \<open>
  The chunks that reach the client, in order: those written before the stream is
  destroyed or ended.
\<close>

fun received :: "chan_op list \<Rightarrow> string list" where
  "received [] = []"
| "received (Write s # tr) = s # received tr"
| "received (Destroy # tr) = []"
| "received (End # tr) = []"
| "received (x # tr) = received tr"

section \<open>A reference platform\<close>

text \<open>
  One concrete platform, on which the theorems below are run: a reader and a writer for
  JSON texts after ECMA-404, a base64 decoder, a fixed identifier, a backend that streams
  three chunks and a response stream that accepts every write. The reader keeps a number
  as its literal; of a repeated key it keeps the last value, as \<^verbatim>\<open>JSON.parse\<close> does;
  an escaped code unit \<^verbatim>\<open>\uXXXX\<close> becomes the UTF-8 bytes of that code unit.
\<close>

subsection \<open>Reading a JSON text\<close>

definition is_ws :: "char \<Rightarrow> bool" where
  "is_ws c = (c \<in> set [CHR 0x20, CHR 0x09, CHR 0x0A, CHR 0x0D])"

definition skip_ws :: "string \<Rightarrow> string" where
  "skip_ws s = dropWhile is_ws s"

definition is_digit :: "char \<Rightarrow> bool" where
  "is_digit c = (c \<in> set ''0123456789'')"

definition hex_value :: "char \<Rightarrow> nat option" where
  "hex_value c =
     (let n = (of_char c :: nat) in
      if 48 \<le> n \<and> n \<le> 57 then Some (n - 48)
      else if 65 \<le> n \<and> n \<le> 70 then Some (n - 55)
      else if 97 \<le> n \<and> n \<le> 102 then Some (n - 87)
      else None)"

definition hex4 :: "char \<Rightarrow> char \<Rightarrow> char \<Rightarrow> char \<Rightarrow> nat option" where
  "hex4 a b c d =
     (case (hex_value a, hex_value b, hex_value c, hex_value d) of
        (Some w, Some x, Some y, Some z) \<Rightarrow> Some (4096 * w + 256 * x + 16 * y + z)
      | _ \<Rightarrow> None)"

definition utf8 :: "nat \<Rightarrow> string" where
  "utf8 n =
     (if n < 0x80 then [char_of n]
      else if n < 0x800 then [char_of (0xC0 + n div 64), char_of (0x80 + n mod 64)]
      else if n < 0x10000 then
        [char_of (0xE0 + n div 4096), char_of (0x80 + n div 64 mod 64), char_of (0x80 + n mod 64)]
      else
        [char_of (0xF0 + n div 262144), char_of (0x80 + n div 4096 mod 64),
         char_of (0x80 + n div 64 mod 64), char_of (0x80 + n mod 64)])"

definition simple_escape :: "char \<Rightarrow> char option" where
  "simple_escape c =
     (if c = CHR 0x22 then Some (CHR 0x22)
      else if c = CHR 0x5C then Some (CHR 0x5C)
      else if c = CHR ''/'' then Some (CHR ''/'')
      else if c = CHR ''b'' then Some (CHR 0x08)
      else if c = CHR ''f'' then Some (CHR 0x0C)
      else if c = CHR ''n'' then Some (CHR 0x0A)
      else if c = CHR ''r'' then Some (CHR 0x0D)
      else if c = CHR ''t'' then Some (CHR 0x09)
      else None)"

text \<open>The characters of a string literal after its opening quote, and the rest.\<close>

fun read_string :: "string \<Rightarrow> (string \<times> string) option" where
  "read_string [] = None"
| "read_string (c # cs) =
     (if c = CHR 0x22 then Some ([], cs)
      else if c = CHR 0x5C then
        (case cs of
           [] \<Rightarrow> None
         | x # r \<Rightarrow>
             (if x = CHR ''u'' then
                (case r of
                   h1 # h2 # h3 # h4 # r' \<Rightarrow>
                     (case hex4 h1 h2 h3 h4 of
                        None \<Rightarrow> None
                      | Some n \<Rightarrow> map_option (apfst ((@) (utf8 n))) (read_string r'))
                 | _ \<Rightarrow> None)
              else
                (case simple_escape x of
                   None \<Rightarrow> None
                 | Some y \<Rightarrow> map_option (apfst ((#) y)) (read_string r))))
      else if (of_char c :: nat) < 0x20 then None
      else map_option (apfst ((#) c)) (read_string cs))"

definition read_digits :: "string \<Rightarrow> string \<times> string" where
  "read_digits s = (takeWhile is_digit s, dropWhile is_digit s)"

definition read_number :: "string \<Rightarrow> (string \<times> string) option" where
  "read_number s =
     (let (sign, s1) = (case s of c # r \<Rightarrow> if c = CHR ''-'' then (''-'', r) else ([], s) | [] \<Rightarrow> ([], s));
          (ip, s2) = read_digits s1;
          (fp, s3) = (case s2 of c # r \<Rightarrow> if c = CHR ''.'' then (c # fst (read_digits r), snd (read_digits r)) else ([], s2) | [] \<Rightarrow> ([], s2));
          (mark, s4) = (case s3 of c # r \<Rightarrow> if c = CHR ''e'' \<or> c = CHR ''E'' then ([c], r) else ([], s3) | [] \<Rightarrow> ([], s3));
          (esign, s5) = (case s4 of c # r \<Rightarrow> if mark \<noteq> [] \<and> (c = CHR ''+'' \<or> c = CHR ''-'') then ([c], r) else ([], s4) | [] \<Rightarrow> ([], s4));
          (ep, s6) = (if mark = [] then ([], s5) else read_digits s5)
      in if ip = [] \<or> (length ip > 1 \<and> hd ip = CHR ''0'') \<or> fp = ''.'' \<or> (mark \<noteq> [] \<and> ep = [])
         then None
         else Some (sign @ ip @ fp @ mark @ esign @ ep, s6))"

definition expect :: "char \<Rightarrow> string \<Rightarrow> string option" where
  "expect c s = (case skip_ws s of [] \<Rightarrow> None | x # r \<Rightarrow> if x = c then Some r else None)"

definition read_word :: "string \<Rightarrow> json \<Rightarrow> string \<Rightarrow> (json \<times> string) option" where
  "read_word w v s = (if take (length w) s = w then Some (v, drop (length w) s) else None)"

fun put :: "string \<Rightarrow> json \<Rightarrow> (string \<times> json) list \<Rightarrow> (string \<times> json) list" where
  "put k v [] = [(k, v)]"
| "put k v ((k', v') # kvs) = (if k = k' then (k, v) # kvs else (k', v') # put k v kvs)"

fun read_value :: "nat \<Rightarrow> string \<Rightarrow> (json \<times> string) option"
  and read_elements :: "nat \<Rightarrow> json list \<Rightarrow> string \<Rightarrow> (json \<times> string) option"
  and read_members :: "nat \<Rightarrow> (string \<times> json) list \<Rightarrow> string \<Rightarrow> (json \<times> string) option"
where
  "read_value 0 s = None"
| "read_value (Suc n) s =
     (case skip_ws s of
        [] \<Rightarrow> None
      | c # r \<Rightarrow>
          if c = CHR ''{'' then
            (case expect (CHR ''}'') r of Some r' \<Rightarrow> Some (JObj [], r') | None \<Rightarrow> read_members n [] r)
          else if c = CHR ''['' then
            (case expect (CHR '']'') r of Some r' \<Rightarrow> Some (JArr [], r') | None \<Rightarrow> read_elements n [] r)
          else if c = CHR 0x22 then map_option (apfst JStr) (read_string r)
          else if c = CHR ''t'' then read_word ''true'' (JBool True) (c # r)
          else if c = CHR ''f'' then read_word ''false'' (JBool False) (c # r)
          else if c = CHR ''n'' then read_word ''null'' JNull (c # r)
          else map_option (apfst JNum) (read_number (c # r)))"
| "read_elements 0 acc s = None"
| "read_elements (Suc n) acc s =
     (case read_value n s of
        None \<Rightarrow> None
      | Some (v, r) \<Rightarrow>
          (case expect (CHR '','') r of
             Some r' \<Rightarrow> read_elements n (acc @ [v]) r'
           | None \<Rightarrow> map_option (Pair (JArr (acc @ [v]))) (expect (CHR '']'') r)))"
| "read_members 0 acc s = None"
| "read_members (Suc n) acc s =
     (case expect (CHR 0x22) s of
        None \<Rightarrow> None
      | Some r \<Rightarrow>
          (case read_string r of
             None \<Rightarrow> None
           | Some (k, r1) \<Rightarrow>
               (case expect (CHR '':'') r1 of
                  None \<Rightarrow> None
                | Some r2 \<Rightarrow>
                    (case read_value n r2 of
                       None \<Rightarrow> None
                     | Some (v, r3) \<Rightarrow>
                         (case expect (CHR '','') r3 of
                            Some r4 \<Rightarrow> read_members n (put k v acc) r4
                          | None \<Rightarrow> map_option (Pair (JObj (put k v acc))) (expect (CHR ''}'') r3))))))"

definition json_read :: "string \<Rightarrow> json option" where
  "json_read s =
     (case read_value (2 * length s + 2) s of
        None \<Rightarrow> None
      | Some (v, r) \<Rightarrow> if skip_ws r = [] then Some v else None)"

subsection \<open>Writing a JSON text, decoding base64\<close>

definition hex_char :: "nat \<Rightarrow> char" where
  "hex_char n = ''0123456789abcdef'' ! (n mod 16)"

definition escape_char :: "char \<Rightarrow> string" where
  "escape_char c =
     (if c = CHR 0x22 then [CHR 0x5C, CHR 0x22]
      else if c = CHR 0x5C then [CHR 0x5C, CHR 0x5C]
      else if c = CHR 0x08 then [CHR 0x5C, CHR ''b'']
      else if c = CHR 0x0C then [CHR 0x5C, CHR ''f'']
      else if c = CHR 0x0A then [CHR 0x5C, CHR ''n'']
      else if c = CHR 0x0D then [CHR 0x5C, CHR ''r'']
      else if c = CHR 0x09 then [CHR 0x5C, CHR ''t'']
      else if (of_char c :: nat) < 0x20 then
        [CHR 0x5C, CHR ''u'', CHR ''0'', CHR ''0'', hex_char (of_char c div 16), hex_char (of_char c)]
      else [c])"

definition quote :: "string \<Rightarrow> string" where
  "quote s = CHR 0x22 # concat (map escape_char s) @ [CHR 0x22]"

fun json_write :: "json \<Rightarrow> string"
  and write_elements :: "json list \<Rightarrow> string"
  and write_members :: "(string \<times> json) list \<Rightarrow> string"
where
  "json_write JNull = ''null''"
| "json_write (JBool b) = (if b then ''true'' else ''false'')"
| "json_write (JNum t) = t"
| "json_write (JStr s) = quote s"
| "json_write (JArr xs) = ''['' @ write_elements xs @ '']''"
| "json_write (JObj kvs) = ''{'' @ write_members kvs @ ''}''"
| "write_elements [] = []"
| "write_elements [x] = json_write x"
| "write_elements (x # y # xs) = json_write x @ '','' @ write_elements (y # xs)"
| "write_members [] = []"
| "write_members [(k, v)] = quote k @ '':'' @ json_write v"
| "write_members ((k, v) # kv # kvs) = quote k @ '':'' @ json_write v @ '','' @ write_members (kv # kvs)"

definition b64_index :: "char \<Rightarrow> nat option" where
  "b64_index c =
     (let n = (of_char c :: nat) in
      if 65 \<le> n \<and> n \<le> 90 then Some (n - 65)
      else if 97 \<le> n \<and> n \<le> 122 then Some (n - 71)
      else if 48 \<le> n \<and> n \<le> 57 then Some (n + 4)
      else if c = CHR ''+'' \<or> c = CHR ''-'' then Some 62
      else if c = CHR ''/'' \<or> c = CHR ''_'' then Some 63
      else None)"

fun b64_bytes :: "nat list \<Rightarrow> string" where
  "b64_bytes (a # b # c # d # r) =
     char_of (a * 4 + b div 16) # char_of (b mod 16 * 16 + c div 4) # char_of (c mod 4 * 64 + d) # b64_bytes r"
| "b64_bytes [a, b, c] = [char_of (a * 4 + b div 16), char_of (b mod 16 * 16 + c div 4)]"
| "b64_bytes [a, b] = [char_of (a * 4 + b div 16)]"
| "b64_bytes r = []"

definition base64_decode :: "string \<Rightarrow> string" where
  "base64_decode s = b64_bytes (List.map_filter b64_index (takeWhile (\<lambda>c. c \<noteq> CHR ''='') s))"

subsection \<open>Sample runs\<close>

definition platform :: env where
  "platform =
     \<lparr>JSON_parse = (\<lambda>s. case json_read s of None \<Rightarrow> Inl ''Unexpected token in JSON'' | Some v \<Rightarrow> Inr v),
      JSON_stringify = json_write,
      base64_to_utf8 = base64_decode,
      randomUUID = ''0f8fad5b-d9cb-469f-a165-70867728950e'',
      type_error_message = (\<lambda>v. ''Cannot access property sessionId of '' @ json_write v),
      send = (\<lambda>cmd. Inr \<lparr>chunks = [''A'', ''B'', ''C''], failure = None\<rparr>),
      write_fault = (\<lambda>tr s. None)\<rparr>"

definition sample_module :: module_state where
  "sample_module =
     \<lparr>agentCoreArn = ''arn:aws:bedrock-agentcore:us-west-2:123456789012:runtime/demo'',
      region = ''us-west-2''\<rparr>"

text \<open>
  Three more platforms: a backend whose stream emits one chunk and then fails, a backend
  that refuses the call, and a response stream that throws on every write once it has
  accepted \<open>n\<close> chunks.
\<close>

definition failing_stream :: "js_thrown \<Rightarrow> env" where
  "failing_stream err = platform\<lparr>send := (\<lambda>cmd. Inr \<lparr>chunks = [''A''], failure = Some err\<rparr>)\<rparr>"

definition refusing_backend :: "string \<Rightarrow> env" where
  "refusing_backend msg = platform\<lparr>send := (\<lambda>cmd. Inl (JsError msg))\<rparr>"

definition breaks_after :: "nat \<Rightarrow> env" where
  "breaks_after n =
     platform\<lparr>write_fault :=
       (\<lambda>tr s. if n \<le> length (received tr) then Some (JsError ''write EPIPE'') else None)\<rparr>"

text \<open>A POST with the given body; a GET with the given query parameters.\<close>

definition post :: "string \<Rightarrow> event" where
  "post b = \<lparr>body = Some b, isBase64Encoded = False, queryStringParameters = None\<rparr>"

definition get :: "(string \<times> string) list \<Rightarrow> event" where
  "get q = \<lparr>body = None, isBase64Encoded = False, queryStringParameters = Some (map_of q)\<rparr>"

text \<open>The JSON value an event-stream record carries after \<^verbatim>\<open>data: \<close>, if the record holds one.\<close>

definition frame_json :: "string \<Rightarrow> json option" where
  "frame_json f =
     (if take 6 f = ''data: '' \<and> drop (length f - 2) f = [CHR 0x0A, CHR 0x0A]
      then json_read (take (length f - 8) (drop 6 f))
      else None)"

text \<open>
  A character that stands for itself inside a JSON string: not the quote, not the backslash,
  not a control character.
\<close>

definition plain_char :: "char \<Rightarrow> bool" where
  "plain_char c = (c \<noteq> CHR 0x22 \<and> c \<noteq> CHR 0x5C \<and> 0x20 \<le> (of_char c :: nat))"

text \<open>The start of the process, then one invocation: the handler exists only once the module has loaded.\<close>

definition cold_start ::
  "(string \<rightharpoonup> string) \<Rightarrow> env \<Rightarrow> event \<Rightarrow> js_thrown + (js_thrown option \<times> run)" where
  "cold_start process_env e ev =
     (case module_init process_env of Inl err \<Rightarrow> Inl err | Inr m \<Rightarrow> Inr (handler m e ev))"

text \<open>The session identifier the request itself carries, if it carries one.\<close>

definition supplied_sessionId :: "env \<Rightarrow> event \<Rightarrow> json option" where
  "supplied_sessionId e ev =
     (case read_params e ev of Inr (JObj kvs) \<Rightarrow> map_of kvs ''sessionId'' | _ \<Rightarrow> None)"

text \<open>The text handed to \<^verbatim>\<open>JSON.parse\<close> when the event has a body.\<close>

definition body_json_text :: "env \<Rightarrow> event \<Rightarrow> string" where
  "body_json_text e ev =
     (if isBase64Encoded ev then base64_to_utf8 e (body_text ev) else body_text ev)"

section \<open>Properties\<close>

subsection \<open>General facts\<close>

lemma asyncPipeline_clean:
  "(\<And>t s. write_fault e t s = None) \<Longrightarrow>
   asyncPipeline e cs f tr =
     (case f of
        None \<Rightarrow> (Normal, tr @ map Write cs @ [End])
      | Some err \<Rightarrow> (Throws err, tr @ map Write cs @ [Destroy]))"
  by (induction cs arbitrary: tr) (auto split: option.splits)

lemma received_until_destroy: "received (map Write cs @ Destroy # tr) = cs"
  by (induction cs) auto

lemma calls_handler:
  "parseClientRequest e ev = Inr rp \<Longrightarrow> calls (snd (handler m e ev)) = [invokeCommand m e rp]"
  by (auto simp: handler_def try_block_def split: sum.splits prod.splits completion.splits)

lemma handler_parse_failure:
  "parseClientRequest e ev = Inl err \<Longrightarrow>
   handler m e ev = (None, \<lparr>ops = snd (report_writes e err []) @ [End], calls = []\<rparr>)"
  by (auto simp: handler_def try_block_def catch_block_def split: prod.splits)

text \<open>When \<^verbatim>\<open>parseClientRequest\<close> throws, the response stream is never given its metadata.\<close>

lemma parse_failure_never_opens:
  "parseClientRequest e ev = Inl err \<Longrightarrow> HttpFrom md \<notin> set (ops (snd (handler m e ev)))"
  by (auto simp: handler_parse_failure report_writes_def split: option.splits js_thrown.splits)

text \<open>
  The one exception the handler leaves unhandled is an exception that escapes from the
  relay; whatever the \<^verbatim>\<open>try\<close> block throws is dealt with, and the promise resolves.
\<close>

lemma handler_unhandled:
  "fst (handler m e ev) =
     (case fst (try_block m e ev) of Normal \<Rightarrow> None | Throws err \<Rightarrow> None | Escapes err \<Rightarrow> Some err)"
  by (auto simp: handler_def catch_block_def split: prod.splits completion.splits)

lemma handler_resolves:
  "(\<And>t s. write_fault e t s = None) \<Longrightarrow> fst (handler m e ev) = None"
  by (auto simp: handler_def try_block_def catch_block_def asyncPipeline_clean
      split: prod.splits completion.splits sum.splits option.splits)

text \<open>
  A backend stream that fails, on a response stream that takes every write: the stream is
  destroyed after the chunks, the calls of the \<^verbatim>\<open>catch\<close> block come after that, and
  the chunks are all that reaches the client.
\<close>

lemma stream_failure_trace:
  assumes "parseClientRequest e ev = Inr rp"
    and "send e (invokeCommand m e rp) = Inr r"
    and "failure r = Some err"
    and "\<And>t s. write_fault e t s = None"
  shows "handler m e ev =
     (None, \<lparr>ops = HttpFrom responseMetadata # map Write (chunks r) @ Destroy # Write generic_frame #
                    (case err of JsError message \<Rightarrow> [Write (error_frame message)] | JsValue v \<Rightarrow> []) @ [End],
             calls = [invokeCommand m e rp]\<rparr>)"
    and "received (ops (snd (handler m e ev))) = chunks r"
proof -
  show h: "handler m e ev =
     (None, \<lparr>ops = HttpFrom responseMetadata # map Write (chunks r) @ Destroy # Write generic_frame #
                    (case err of JsError message \<Rightarrow> [Write (error_frame message)] | JsValue v \<Rightarrow> []) @ [End],
             calls = [invokeCommand m e rp]\<rparr>)"
    using assms(1-3)
    by (simp add: handler_def try_block_def catch_block_def report_writes_def
        asyncPipeline_clean [OF assms(4)] assms(4) split: js_thrown.splits)
  show "received (ops (snd (handler m e ev))) = chunks r"
    by (simp add: h received_until_destroy)
qed

lemma parse_body:
  "body_text ev \<noteq> [] \<Longrightarrow>
   parseClientRequest e ev =
     (case JSON_parse e (body_json_text e ev) of
        Inl msg \<Rightarrow> Inl (JsError msg)
      | Inr v \<Rightarrow> assign_sessionId e v)"
  by (auto simp: parseClientRequest_def read_params_def parse_json_def body_json_text_def
      split: sum.splits)

lemma assign_truthy:
  "assign_sessionId e v = Inr r \<Longrightarrow> randomUUID e \<noteq> [] \<Longrightarrow> truthy (sessionId r)"
  by (cases v) (auto simp: session_or_fresh_def split: option.splits if_splits)

lemma report_writes_failed:
  "fst (report_writes e err tr) = Some streamError \<Longrightarrow>
   \<exists>pre s. snd (report_writes e err tr) = pre @ [WriteFailed s]"
  by (auto simp: report_writes_def split: option.splits js_thrown.splits)

text \<open>
  An error record whose message holds plain characters only carries a JSON object with the
  message under the \<^verbatim>\<open>error\<close> key.
\<close>

lemma read_string_plain:
  "list_all plain_char s \<Longrightarrow> read_string (s @ CHR 0x22 # rest) = Some (s, rest)"
  by (induction s) (auto simp: plain_char_def)

lemma frame_payload:
  "take (length (error_frame s) - 8) (drop 6 (error_frame s)) = ''{\"error\": \"'' @ s @ ''\"}''"
  by (simp add: error_frame_def)

lemma error_frame_plain:
  "list_all plain_char s \<Longrightarrow> frame_json (error_frame s) = Some (JObj [(''error'', JStr s)])"
proof -
  assume p: "list_all plain_char s"
  have 1: "take 6 (error_frame s) = ''data: ''" by (simp add: error_frame_def)
  have 2: "drop (length (error_frame s) - 2) (error_frame s) = [CHR 0x0A, CHR 0x0A]"
    by (simp add: error_frame_def)
  have k: "read_string (''error'' @ CHR 0x22 # r) = Some (''error'', r)" for r
    by (rule read_string_plain) (simp add: plain_char_def)
  have v: "read_string (s @ CHR 0x22 # r) = Some (s, r)" for r
    using p by (rule read_string_plain)
  obtain n where n: "2 * length (''{\"error\": \"'' @ s @ ''\"}'') + 2 = Suc (Suc (Suc n))"
    by (simp add: numeral_eq_Suc)
  have "read_value (Suc (Suc (Suc n))) (''{\"error\": \"'' @ s @ ''\"}'') =
      Some (JObj [(''error'', JStr s)], [])"
    using k v [of "''}''"]
    by (simp add: expect_def skip_ws_def is_ws_def)
  with n have "json_read (''{\"error\": \"'' @ s @ ''\"}'') = Some (JObj [(''error'', JStr s)])"
    by (simp add: json_read_def skip_ws_def)
  with 1 2 show ?thesis by (simp add: frame_json_def frame_payload)
qed

text \<open>
  Unless an exception escapes from the relay, the handler ends the response stream exactly
  once, and that is its last operation on it.
\<close>

lemma asyncPipeline_end:
  "End \<notin> set tr \<Longrightarrow> asyncPipeline e cs f tr = (r, tr') \<Longrightarrow>
   (case r of Normal \<Rightarrow> \<exists>pre. tr' = pre @ [End] \<and> End \<notin> set pre
    | Throws err \<Rightarrow> End \<notin> set tr' | Escapes err \<Rightarrow> End \<notin> set tr')"
proof (induction cs arbitrary: tr)
  case Nil
  then show ?case by (cases f) auto
next
  case (Cons c cs)
  show ?case
  proof (cases "write_fault e tr c")
    case None
    with Cons.prems have "asyncPipeline e cs f (tr @ [Write c]) = (r, tr')" by simp
    moreover from Cons.prems have "End \<notin> set (tr @ [Write c])" by simp
    ultimately show ?thesis by (rule Cons.IH [rotated])
  next
    case (Some err)
    with Cons.prems have "r = Escapes err" and "tr' = tr @ [WriteFailed c]" by simp_all
    with Cons.prems(1) show ?thesis by simp
  qed
qed

lemma report_writes_no_end:
  "End \<notin> set tr \<Longrightarrow> End \<notin> set (snd (report_writes e err tr))"
  by (auto simp: report_writes_def split: option.splits js_thrown.splits)

lemma handler_closed_once:
  assumes "fst (handler m e ev) = None"
  shows "\<exists>pre. ops (snd (handler m e ev)) = pre @ [End] \<and> End \<notin> set pre"
proof (cases "parseClientRequest e ev")
  case (Inl err)
  then show ?thesis
    using report_writes_no_end [of "[]" e err]
    by (simp add: handler_parse_failure)
next
  case (Inr rp)
  show ?thesis
  proof (cases "send e (invokeCommand m e rp)")
    case (Inl err)
    with Inr show ?thesis
      using report_writes_no_end [of "[HttpFrom responseMetadata]" e err]
      by (auto simp: handler_def try_block_def catch_block_def split: prod.splits)
  next
    case r: (Inr resp)
    obtain x tr where p: "asyncPipeline e (chunks resp) (failure resp) [HttpFrom responseMetadata] = (x, tr)"
      by (cases "asyncPipeline e (chunks resp) (failure resp) [HttpFrom responseMetadata]")
    have n: "End \<notin> set [HttpFrom responseMetadata]" by simp
    show ?thesis
    proof (cases x)
      case Normal
      with asyncPipeline_end [OF n p] Inr r p show ?thesis
        by (auto simp: handler_def try_block_def)
    next
      case (Throws err)
      with asyncPipeline_end [OF n p] have "End \<notin> set tr" by simp
      from report_writes_no_end [OF this, of e err] Inr r p Throws show ?thesis
        by (auto simp: handler_def try_block_def catch_block_def split: prod.splits)
    next
      case (Escapes err)
      with Inr r p assms show ?thesis
        by (simp add: handler_def try_block_def)
    qed
  qed
qed

subsection \<open>A body that is not JSON\<close>

text \<open>
  C1. The claim: for a body that is present but is not JSON, such as \<^verbatim>\<open>{not json\<close>, the
  handler does not fail, opens the response stream with the success metadata (status 200,
  \<^verbatim>\<open>text/event-stream\<close>) before it reports, writes at least one error record and ends
  the stream. The run on that body: the promise resolves, the two error records are
  written and the stream is ended, but \<^verbatim>\<open>HttpResponseStream.from\<close> is never called, as
  \<^verbatim>\<open>parseClientRequest\<close> throws before line 74 is reached; the records go out on a stream
  that carries no metadata.
\<close>

theorem malformed_body_reported_unopened:
  "handler sample_module platform (post ''{not json'') =
     (None, \<lparr>ops = [Write generic_frame, Write (error_frame ''Unexpected token in JSON''), End],
             calls = []\<rparr>)"
  by code_simp

subsection \<open>A backend stream that fails\<close>

text \<open>
  C2. The claim: when the backend stream fails after the chunk \<open>A\<close>, the client receives
  \<open>A\<close>, then exactly one error record, then the stream is closed, and nothing is written
  after the close. The run below has the stream emit \<open>A\<close> and fail with
  \<^verbatim>\<open>new Error("boom")\<close>, on a response stream that takes every write: the relay destroys
  the response stream as soon as the source fails, and only then does the \<^verbatim>\<open>catch\<close>
  block call \<^verbatim>\<open>write\<close>, twice, and \<^verbatim>\<open>end\<close>. The client receives \<open>A\<close> and no
  error record, and both writes come after the stream is closed.
\<close>

theorem stream_error_frames_lost:
  "ops (snd (handler sample_module (failing_stream (JsError ''boom'')) (post ''{\"prompt\":\"hi\"}''))) =
     [HttpFrom responseMetadata, Write ''A'', Destroy, Write generic_frame,
      Write (error_frame ''boom''), End] \<and>
   received (ops (snd (handler sample_module (failing_stream (JsError ''boom''))
                        (post ''{\"prompt\":\"hi\"}'')))) = [''A'']"
  by code_simp

subsection \<open>The error record\<close>

text \<open>
  C3. The claim: every error record the proxy writes has the form
  \<^verbatim>\<open>data: {"error": "<message>"}\<close> followed by an empty line, and what follows
  \<^verbatim>\<open>data: \<close> is well-formed JSON with an \<^verbatim>\<open>error\<close> key, whatever the message, quotes
  and line breaks included. The run below has the backend refuse the call with a message
  that holds a double quote: the fixed record reads as JSON, the record with the message
  does not, since line 109 inserts the message into the text as it is. Neither does the
  record for the message a current V8 gives for the body \<^verbatim>\<open>not json\<close>, nor one for a
  message with a line break.
\<close>

theorem error_frame_unescaped:
  \<open>received (ops (snd (handler sample_module (refusing_backend ''agent "demo" is not ready'')
                        (post ''{"prompt":"hi"}'')))) =
     [''data: {"error": "Internal server error"}\<newline>\<newline>'',
      ''data: {"error": "agent "demo" is not ready"}\<newline>\<newline>'']
   \<and> frame_json ''data: {"error": "Internal server error"}\<newline>\<newline>'' =
       Some (JObj [(''error'', JStr ''Internal server error'')])
   \<and> frame_json ''data: {"error": "agent "demo" is not ready"}\<newline>\<newline>'' = None
   \<and> frame_json (error_frame ''Unexpected token 'o', "not json" is not valid JSON'') = None
   \<and> frame_json (error_frame ''connect failed\<newline>retry later'') = None\<close>
  by code_simp

subsection \<open>The four request shapes\<close>

text \<open>
  C4, as amended. The request is read from exactly four shapes, the first that applies
  winning, where a body or a \<^verbatim>\<open>prompt\<close> query parameter counts only when it is a
  non-empty string: (1) a body marked base64 is decoded and then parsed as JSON; (2) a body
  not so marked is parsed as JSON directly; (3) with no body, a \<^verbatim>\<open>prompt\<close> query
  parameter gives the record, with the \<^verbatim>\<open>sessionId\<close> parameter if it is non-empty; (4)
  otherwise the fixed default prompt is used and nothing fails. A body that does not parse
  makes the function throw the parser's error, whatever the query parameters are.
\<close>

theorem normalizer_precedence:
  "(body_text ev \<noteq> [] \<and> isBase64Encoded ev \<longrightarrow>
      parseClientRequest e ev =
        (case JSON_parse e (base64_to_utf8 e (body_text ev)) of
           Inl msg \<Rightarrow> Inl (JsError msg) | Inr v \<Rightarrow> assign_sessionId e v)) \<and>
   (body_text ev \<noteq> [] \<and> \<not> isBase64Encoded ev \<longrightarrow>
      parseClientRequest e ev =
        (case JSON_parse e (body_text ev) of
           Inl msg \<Rightarrow> Inl (JsError msg) | Inr v \<Rightarrow> assign_sessionId e v)) \<and>
   (body_text ev = [] \<and> query_text ev ''prompt'' \<noteq> [] \<longrightarrow>
      parseClientRequest e ev =
        Inr \<lparr>sessionId = (if query_text ev ''sessionId'' \<noteq> [] then JStr (query_text ev ''sessionId'')
                           else JStr (randomUUID e)),
             prompt = Some (JStr (query_text ev ''prompt''))\<rparr>) \<and>
   (body_text ev = [] \<and> query_text ev ''prompt'' = [] \<longrightarrow>
      parseClientRequest e ev =
        Inr \<lparr>sessionId = JStr (randomUUID e), prompt = Some (JStr default_prompt)\<rparr>) \<and>
   (body_text ev \<noteq> [] \<and> JSON_parse e (body_json_text e ev) = Inl msg \<longrightarrow>
      parseClientRequest e ev = Inl (JsError msg))"
  by (auto simp: parseClientRequest_def read_params_def parse_json_def body_json_text_def
      query_object_def query_text_def session_or_fresh_def split: sum.splits option.splits)

theorem normalizer_precedence_witness:
  "parseClientRequest platform
      \<lparr>body = Some ''eyJwcm9tcHQiOiJoaSIsInNlc3Npb25JZCI6ImFiYyJ9'', isBase64Encoded = True,
       queryStringParameters = Some (map_of [(''prompt'', ''from query'')])\<rparr> =
     Inr \<lparr>sessionId = JStr ''abc'', prompt = Some (JStr ''hi'')\<rparr> \<and>
   parseClientRequest platform
      \<lparr>body = Some ''{\"prompt\":\"hi\"}'', isBase64Encoded = False,
       queryStringParameters = Some (map_of [(''prompt'', ''from query'')])\<rparr> =
     Inr \<lparr>sessionId = JStr ''0f8fad5b-d9cb-469f-a165-70867728950e'', prompt = Some (JStr ''hi'')\<rparr> \<and>
   parseClientRequest platform (get [(''prompt'', ''from query''), (''sessionId'', ''s-1'')]) =
     Inr \<lparr>sessionId = JStr ''s-1'', prompt = Some (JStr ''from query'')\<rparr> \<and>
   parseClientRequest platform (get []) =
     Inr \<lparr>sessionId = JStr ''0f8fad5b-d9cb-469f-a165-70867728950e'',
          prompt = Some (JStr default_prompt)\<rparr> \<and>
   parseClientRequest platform
      \<lparr>body = Some ''{not json'', isBase64Encoded = False,
       queryStringParameters = Some (map_of [(''prompt'', ''from query'')])\<rparr> =
     Inl (JsError ''Unexpected token in JSON'')"
proof -
  let ?q = "Some (map_of [(''prompt'', ''from query'')])"
  let ?ev1 = "\<lparr>body = Some ''eyJwcm9tcHQiOiJoaSIsInNlc3Npb25JZCI6ImFiYyJ9'', isBase64Encoded = True,
       queryStringParameters = ?q\<rparr>"
  let ?ev2 = "\<lparr>body = Some ''{\"prompt\":\"hi\"}'', isBase64Encoded = False, queryStringParameters = ?q\<rparr>"
  let ?ev3 = "get [(''prompt'', ''from query''), (''sessionId'', ''s-1'')]"
  let ?ev4 = "get []"
  let ?ev5 = "\<lparr>body = Some ''{not json'', isBase64Encoded = False, queryStringParameters = ?q\<rparr>"
  have h1: "body_text ?ev1 \<noteq> [] \<and> isBase64Encoded ?ev1" by code_simp
  have v1: "(case JSON_parse platform (base64_to_utf8 platform (body_text ?ev1)) of
           Inl msg \<Rightarrow> Inl (JsError msg) | Inr v \<Rightarrow> assign_sessionId platform v) =
         Inr \<lparr>sessionId = JStr ''abc'', prompt = Some (JStr ''hi'')\<rparr>" by code_simp
  have h2: "body_text ?ev2 \<noteq> [] \<and> \<not> isBase64Encoded ?ev2" by code_simp
  have v2: "(case JSON_parse platform (body_text ?ev2) of
           Inl msg \<Rightarrow> Inl (JsError msg) | Inr v \<Rightarrow> assign_sessionId platform v) =
         Inr \<lparr>sessionId = JStr ''0f8fad5b-d9cb-469f-a165-70867728950e'', prompt = Some (JStr ''hi'')\<rparr>"
    by code_simp
  have h3: "body_text ?ev3 = [] \<and> query_text ?ev3 ''prompt'' \<noteq> []" by code_simp
  have v3: "query_text ?ev3 ''sessionId'' = ''s-1'' \<and> query_text ?ev3 ''prompt'' = ''from query''"
    by code_simp
  have h4: "body_text ?ev4 = [] \<and> query_text ?ev4 ''prompt'' = []" by code_simp
  have u: "randomUUID platform = ''0f8fad5b-d9cb-469f-a165-70867728950e''" by code_simp
  have h5: "body_text ?ev5 \<noteq> [] \<and> JSON_parse platform (body_json_text platform ?ev5) =
      Inl ''Unexpected token in JSON''" by code_simp
  note n = normalizer_precedence
  have c1: "parseClientRequest platform ?ev1 = Inr \<lparr>sessionId = JStr ''abc'', prompt = Some (JStr ''hi'')\<rparr>"
    by (rule trans [OF n [where ev = ?ev1 and e = platform, THEN conjunct1, THEN mp, OF h1] v1])
  have c2: "parseClientRequest platform ?ev2 =
     Inr \<lparr>sessionId = JStr ''0f8fad5b-d9cb-469f-a165-70867728950e'', prompt = Some (JStr ''hi'')\<rparr>"
    by (rule trans [OF n [where ev = ?ev2 and e = platform, THEN conjunct2, THEN conjunct1, THEN mp, OF h2] v2])
  have c3: "parseClientRequest platform ?ev3 =
     Inr \<lparr>sessionId = JStr ''s-1'', prompt = Some (JStr ''from query'')\<rparr>"
    using n [where ev = ?ev3 and e = platform, THEN conjunct2, THEN conjunct2, THEN conjunct1, THEN mp, OF h3]
    by (simp add: v3)
  have c4: "parseClientRequest platform ?ev4 =
     Inr \<lparr>sessionId = JStr ''0f8fad5b-d9cb-469f-a165-70867728950e'', prompt = Some (JStr default_prompt)\<rparr>"
    using n [where ev = ?ev4 and e = platform, THEN conjunct2, THEN conjunct2, THEN conjunct2,
        THEN conjunct1, THEN mp, OF h4]
    by (simp add: u)
  have c5: "parseClientRequest platform ?ev5 = Inl (JsError ''Unexpected token in JSON'')"
    by (rule n [where ev = ?ev5 and e = platform, THEN conjunct2, THEN conjunct2, THEN conjunct2,
        THEN conjunct2, THEN mp, OF h5])
  from c1 c2 c3 c4 c5 show ?thesis by blast
qed

text \<open>
  With a body counted as present whenever it is a string, as first stated, the property
  fails: the empty body does not parse as JSON, yet the function does not throw and
  answers with the default prompt.
\<close>

theorem empty_body_falls_back:
  "body (post []) = Some [] \<and>
   JSON_parse platform [] = Inl ''Unexpected token in JSON'' \<and>
   parseClientRequest platform (post []) =
     Inr \<lparr>sessionId = JStr (randomUUID platform), prompt = Some (JStr default_prompt)\<rparr>"
  by code_simp

subsection \<open>The session identifier\<close>

text \<open>
  C5. Whenever \<^verbatim>\<open>parseClientRequest\<close> returns and the identifier generator returns a
  non-empty string, the \<^verbatim>\<open>sessionId\<close> of the result is present and non-empty (truthy).
  If the request carries no \<^verbatim>\<open>sessionId\<close> or the empty string, the result holds the
  generated identifier; if it carries a non-empty string, the result holds that string
  unchanged. A value that is not a string is kept when it is truthy and replaced by the
  generated identifier when it is not. In every case the \<^verbatim>\<open>sessionId\<close> of the result is
  the \<^verbatim>\<open>runtimeSessionId\<close> of the one command sent to the backend: \<^verbatim>\<open>"abc"\<close> reaches
  the backend as \<^verbatim>\<open>"abc"\<close>.
\<close>

theorem session_identity:
  assumes "parseClientRequest e ev = Inr r" and "randomUUID e \<noteq> []"
  shows "truthy (sessionId r) \<and>
     (supplied_sessionId e ev = None \<or> supplied_sessionId e ev = Some (JStr []) \<longrightarrow>
        sessionId r = JStr (randomUUID e)) \<and>
     (\<forall>s. supplied_sessionId e ev = Some (JStr s) \<and> s \<noteq> [] \<longrightarrow> sessionId r = JStr s) \<and>
     (\<forall>v. supplied_sessionId e ev = Some v \<longrightarrow>
        sessionId r = (if truthy v then v else JStr (randomUUID e))) \<and>
     map runtimeSessionId (calls (snd (handler m e ev))) = [sessionId r]"
proof -
  from assms(1) obtain params where rp: "read_params e ev = Inr params"
    and a: "assign_sessionId e params = Inr r"
    by (auto simp: parseClientRequest_def split: sum.splits)
  have 1: "truthy (sessionId r)" using a assms(2) by (rule assign_truthy)
  have 2: "sessionId r = session_or_fresh e (supplied_sessionId e ev)"
    using a rp by (cases params) (auto simp: supplied_sessionId_def)
  have 3: "map runtimeSessionId (calls (snd (handler m e ev))) = [sessionId r]"
    by (simp add: calls_handler [OF assms(1)] invokeCommand_def)
  from 1 2 3 show ?thesis by (auto simp: session_or_fresh_def)
qed

theorem session_identity_witness:
  "map runtimeSessionId
     (calls (snd (handler sample_module platform (post ''{\"prompt\":\"hi\",\"sessionId\":\"abc\"}'')))) =
     [JStr ''abc''] \<and>
   map runtimeSessionId
     (calls (snd (handler sample_module platform (post ''{\"prompt\":\"hi\",\"sessionId\":\"\"}'')))) =
     [JStr ''0f8fad5b-d9cb-469f-a165-70867728950e'']"
proof -
  let ?ev = "post ''{\"prompt\":\"hi\",\"sessionId\":\"abc\"}''"
  let ?r = "\<lparr>sessionId = JStr ''abc'', prompt = Some (JStr ''hi'')\<rparr>"
  let ?ev' = "post ''{\"prompt\":\"hi\",\"sessionId\":\"\"}''"
  let ?r' = "\<lparr>sessionId = JStr ''0f8fad5b-d9cb-469f-a165-70867728950e'', prompt = Some (JStr ''hi'')\<rparr>"
  have p: "parseClientRequest platform ?ev = Inr ?r" by code_simp
  have p': "parseClientRequest platform ?ev' = Inr ?r'" by code_simp
  have u: "randomUUID platform \<noteq> []" by code_simp
  from session_identity [OF p u, of sample_module] session_identity [OF p' u, of sample_module]
  show ?thesis by simp
qed

subsection \<open>The backend call\<close>

text \<open>
  C6. For every body that parses to a JSON object with a \<^verbatim>\<open>prompt\<close> field of value
  \<open>p\<close>, the handler calls the backend exactly once, with the configured
  \<^verbatim>\<open>agentCoreArn\<close>, the assigned session identifier, the qualifier \<^verbatim>\<open>DEFAULT\<close> and, as
  payload, the JSON serialisation of an object whose only field is \<^verbatim>\<open>prompt\<close> with the
  value \<open>p\<close>.
\<close>

theorem backend_invoked_once:
  assumes "body_text ev \<noteq> []"
    and "JSON_parse e (body_json_text e ev) = Inr (JObj kvs)"
    and "map_of kvs ''prompt'' = Some p"
  shows "calls (snd (handler m e ev)) =
     [\<lparr>agentRuntimeArn = agentCoreArn m,
       runtimeSessionId = session_or_fresh e (map_of kvs ''sessionId''),
       payload = JSON_stringify e (JObj [(''prompt'', p)]),
       qualifier = ''DEFAULT''\<rparr>]"
proof -
  have "parseClientRequest e ev =
      Inr \<lparr>sessionId = session_or_fresh e (map_of kvs ''sessionId''), prompt = Some p\<rparr>"
    using assms by (simp add: parse_body)
  from calls_handler [OF this] show ?thesis
    by (simp add: invokeCommand_def payload_object_def)
qed

theorem backend_invoked_once_witness:
  "calls (snd (handler sample_module platform (post ''{\"prompt\":\"hi\",\"sessionId\":\"abc\"}''))) =
     [\<lparr>agentRuntimeArn = ''arn:aws:bedrock-agentcore:us-west-2:123456789012:runtime/demo'',
       runtimeSessionId = JStr ''abc'',
       payload = ''{\"prompt\":\"hi\"}'',
       qualifier = ''DEFAULT''\<rparr>]"
proof -
  let ?ev = "post ''{\"prompt\":\"hi\",\"sessionId\":\"abc\"}''"
  let ?kvs = "[(''prompt'', JStr ''hi''), (''sessionId'', JStr ''abc'')]"
  have b: "body_text ?ev \<noteq> []" by code_simp
  have j: "JSON_parse platform (body_json_text platform ?ev) = Inr (JObj ?kvs)" by code_simp
  have k: "map_of ?kvs ''prompt'' = Some (JStr ''hi'')" by code_simp
  have v: "agentCoreArn sample_module = ''arn:aws:bedrock-agentcore:us-west-2:123456789012:runtime/demo'' \<and>
      session_or_fresh platform (map_of ?kvs ''sessionId'') = JStr ''abc'' \<and>
      JSON_stringify platform (JObj [(''prompt'', JStr ''hi'')]) = ''{\"prompt\":\"hi\"}''" by code_simp
  from backend_invoked_once [OF b j k, of sample_module] v show ?thesis by simp
qed

subsection \<open>The relay\<close>

text \<open>
  C7. When the request parses, the backend returns a stream that ends cleanly and the
  response stream accepts every write, the handler opens the stream with the success
  metadata, writes the backend's chunks one by one in the order the backend emitted them,
  nothing else and none twice, and ends the stream once, after the last chunk; its promise
  resolves. For the chunks A, B, C the operations are: open, write A, write B, write C, end.
\<close>

theorem relay_in_order:
  assumes "parseClientRequest e ev = Inr rp"
    and "send e (invokeCommand m e rp) = Inr r"
    and "failure r = None"
    and "\<And>t s. write_fault e t s = None"
  shows "handler m e ev =
     (None, \<lparr>ops = HttpFrom responseMetadata # map Write (chunks r) @ [End],
             calls = [invokeCommand m e rp]\<rparr>)"
  using assms(1-3) by (simp add: handler_def try_block_def asyncPipeline_clean [OF assms(4)])

theorem relay_in_order_witness:
  "handler sample_module platform (post ''{\"prompt\":\"hi\"}'') =
     (None, \<lparr>ops = [HttpFrom responseMetadata, Write ''A'', Write ''B'', Write ''C'', End],
             calls = [\<lparr>agentRuntimeArn = ''arn:aws:bedrock-agentcore:us-west-2:123456789012:runtime/demo'',
                       runtimeSessionId = JStr ''0f8fad5b-d9cb-469f-a165-70867728950e'',
                       payload = ''{\"prompt\":\"hi\"}'',
                       qualifier = ''DEFAULT''\<rparr>]\<rparr>)"
proof -
  let ?rp = "\<lparr>sessionId = JStr ''0f8fad5b-d9cb-469f-a165-70867728950e'', prompt = Some (JStr ''hi'')\<rparr>"
  let ?r = "\<lparr>chunks = [''A'', ''B'', ''C''], failure = None\<rparr>"
  have p: "parseClientRequest platform (post ''{\"prompt\":\"hi\"}'') = Inr ?rp"
    by code_simp
  have s: "send platform (invokeCommand sample_module platform ?rp) = Inr ?r"
    by (simp add: platform_def)
  have f: "failure ?r = None" by simp
  have w: "\<And>t s. write_fault platform t s = None" by (simp add: platform_def)
  have c: "invokeCommand sample_module platform ?rp =
     \<lparr>agentRuntimeArn = ''arn:aws:bedrock-agentcore:us-west-2:123456789012:runtime/demo'',
                       runtimeSessionId = JStr ''0f8fad5b-d9cb-469f-a165-70867728950e'',
                       payload = ''{\"prompt\":\"hi\"}'',
                       qualifier = ''DEFAULT''\<rparr>" by code_simp
  show ?thesis using relay_in_order [OF p s f w] c by simp
qed

subsection \<open>A failure while reporting\<close>

text \<open>
  C8. When the \<^verbatim>\<open>try\<close> block has thrown, so that the \<^verbatim>\<open>catch\<close> block is reporting
  the failure, and a write of that report throws in turn, the second failure goes no
  further: no exception is left unhandled, the handler's promise resolves, and the
  operation that follows the failed write is the end of the response stream.
\<close>

theorem reporting_failure_swallowed:
  assumes "fst (try_block m e ev) = Throws err"
    and "fst (report_writes e err (ops (snd (try_block m e ev)))) = Some streamError"
  shows "fst (handler m e ev) = None \<and>
     (\<exists>pre s. snd (report_writes e err (ops (snd (try_block m e ev)))) = pre @ [WriteFailed s] \<and>
              ops (snd (handler m e ev)) = pre @ [WriteFailed s, End])"
proof -
  from report_writes_failed [OF assms(2)] obtain pre s
    where w: "snd (report_writes e err (ops (snd (try_block m e ev)))) = pre @ [WriteFailed s]"
    by blast
  have "ops (snd (handler m e ev)) = snd (report_writes e err (ops (snd (try_block m e ev)))) @ [End]"
    using assms(1) by (auto simp: handler_def catch_block_def split: prod.splits)
  with w have o: "ops (snd (handler m e ev)) = pre @ [WriteFailed s, End]" by simp
  have "fst (handler m e ev) = None"
    using assms(1) by (simp add: handler_unhandled)
  with w o show ?thesis by blast
qed

theorem reporting_failure_swallowed_witness:
  "fst (handler sample_module (breaks_after 1) (post ''{not json'')) = None \<and>
   ops (snd (handler sample_module (breaks_after 1) (post ''{not json''))) =
     [Write generic_frame, WriteFailed (error_frame ''Unexpected token in JSON''), End]"
proof -
  let ?e = "breaks_after 1"
  let ?ev = "post ''{not json''"
  have t: "fst (try_block sample_module ?e ?ev) = Throws (JsError ''Unexpected token in JSON'')"
    by code_simp
  have r: "fst (report_writes ?e (JsError ''Unexpected token in JSON'')
             (ops (snd (try_block sample_module ?e ?ev)))) = Some (JsError ''write EPIPE'')"
    by code_simp
  have o: "ops (snd (handler sample_module ?e ?ev)) =
     [Write generic_frame, WriteFailed (error_frame ''Unexpected token in JSON''), End]"
    by code_simp
  from reporting_failure_swallowed [OF t r] o show ?thesis by blast
qed

text \<open>
  A write that throws while the relay is running is another matter: it is not a failure of
  the report, the \<^verbatim>\<open>catch\<close> block is never entered, and the exception is left
  unhandled. Here the response stream breaks after the first chunk.
\<close>

lemma relay_write_escapes:
  "handler sample_module (breaks_after 1) (post ''{\"prompt\":\"hi\"}'') =
     (Some (JsError ''write EPIPE''),
      \<lparr>ops = [HttpFrom responseMetadata, Write ''A'', WriteFailed ''B''],
       calls = [invokeCommand sample_module (breaks_after 1)
                  \<lparr>sessionId = JStr (randomUUID platform), prompt = Some (JStr ''hi'')\<rparr>]\<rparr>)"
  by code_simp

subsection \<open>The start of the process\<close>

text \<open>
  C9. \<^verbatim>\<open>AGENT_ARN\<close> is the one variable the module needs. When it is unset or empty the
  module fails to load with the error of line 13, so no request is processed, whatever the
  request and the platform are; when it is set, the module loads whatever else the process
  environment holds, the region falling back to \<^verbatim>\<open>us-west-2\<close>.
\<close>

theorem agent_arn_required:
  "(process_env ''AGENT_ARN'' = None \<or> process_env ''AGENT_ARN'' = Some [] \<longrightarrow>
      module_init process_env = Inl (JsError ''AGENT_ARN must be set in environment variables'') \<and>
      cold_start process_env e ev = Inl (JsError ''AGENT_ARN must be set in environment variables'')) \<and>
   (\<forall>a. process_env ''AGENT_ARN'' = Some a \<and> a \<noteq> [] \<longrightarrow>
      module_init process_env =
        Inr \<lparr>agentCoreArn = a, region = env_or (process_env ''AWS_REGION'') ''us-west-2''\<rparr> \<and>
      cold_start process_env e ev =
        Inr (handler \<lparr>agentCoreArn = a, region = env_or (process_env ''AWS_REGION'') ''us-west-2''\<rparr> e ev))"
  by (auto simp: module_init_def cold_start_def env_or_def)

theorem agent_arn_required_witness:
  "cold_start Map.empty platform (post ''{\"prompt\":\"hi\"}'') =
     Inl (JsError ''AGENT_ARN must be set in environment variables'') \<and>
   cold_start [''AWS_REGION'' \<mapsto> ''eu-west-1''] platform (post ''{\"prompt\":\"hi\"}'') =
     Inl (JsError ''AGENT_ARN must be set in environment variables'') \<and>
   module_init [''AGENT_ARN'' \<mapsto> ''arn:aws:bedrock-agentcore:us-west-2:123456789012:runtime/demo''] =
     Inr sample_module"
proof -
  let ?arn = "''arn:aws:bedrock-agentcore:us-west-2:123456789012:runtime/demo''"
  note a = agent_arn_required
  have 1: "cold_start Map.empty platform (post ''{\"prompt\":\"hi\"}'') =
     Inl (JsError ''AGENT_ARN must be set in environment variables'')"
    using a [where process_env = Map.empty, THEN conjunct1] by simp
  have 2: "cold_start [''AWS_REGION'' \<mapsto> ''eu-west-1''] platform (post ''{\"prompt\":\"hi\"}'') =
     Inl (JsError ''AGENT_ARN must be set in environment variables'')"
    using a [where process_env = "[''AWS_REGION'' \<mapsto> ''eu-west-1'']", THEN conjunct1] by simp
  have 3: "module_init [''AGENT_ARN'' \<mapsto> ?arn] = Inr sample_module"
    using a [where process_env = "[''AGENT_ARN'' \<mapsto> ?arn]", THEN conjunct2, THEN spec, of ?arn]
    by (simp add: sample_module_def env_or_def)
  from 1 2 3 show ?thesis by blast
qed

subsection \<open>A body without a prompt\<close>

text \<open>
  C10, as amended. For every body that parses to a JSON object without a \<^verbatim>\<open>prompt\<close>
  field, such as \<^verbatim>\<open>{}\<close>, \<^verbatim>\<open>parseClientRequest\<close> does not fail and does not look at the
  query parameters or the default: it returns a record whose \<^verbatim>\<open>prompt\<close> is undefined,
  and the backend is called once with the serialisation of an object that has no
  \<^verbatim>\<open>prompt\<close> field.
\<close>

theorem object_without_prompt:
  assumes "body_text ev \<noteq> []"
    and "JSON_parse e (body_json_text e ev) = Inr (JObj kvs)"
    and "map_of kvs ''prompt'' = None"
  shows "parseClientRequest e ev =
       Inr \<lparr>sessionId = session_or_fresh e (map_of kvs ''sessionId''), prompt = None\<rparr> \<and>
     calls (snd (handler m e ev)) =
       [\<lparr>agentRuntimeArn = agentCoreArn m,
         runtimeSessionId = session_or_fresh e (map_of kvs ''sessionId''),
         payload = JSON_stringify e (JObj []),
         qualifier = ''DEFAULT''\<rparr>]"
proof -
  have p: "parseClientRequest e ev =
      Inr \<lparr>sessionId = session_or_fresh e (map_of kvs ''sessionId''), prompt = None\<rparr>"
    using assms by (simp add: parse_body)
  from calls_handler [OF p] p show ?thesis
    by (simp add: invokeCommand_def payload_object_def)
qed

theorem object_without_prompt_witness:
  "parseClientRequest platform
      \<lparr>body = Some ''{}'', isBase64Encoded = False,
       queryStringParameters = Some (map_of [(''prompt'', ''from query'')])\<rparr> =
     Inr \<lparr>sessionId = JStr ''0f8fad5b-d9cb-469f-a165-70867728950e'', prompt = None\<rparr> \<and>
   map payload (calls (snd (handler sample_module platform
      \<lparr>body = Some ''{}'', isBase64Encoded = False,
       queryStringParameters = Some (map_of [(''prompt'', ''from query'')])\<rparr>))) = [''{}'']"
proof -
  let ?ev = "\<lparr>body = Some ''{}'', isBase64Encoded = False,
       queryStringParameters = Some (map_of [(''prompt'', ''from query'')])\<rparr>"
  have b: "body_text ?ev \<noteq> []" by code_simp
  have j: "JSON_parse platform (body_json_text platform ?ev) = Inr (JObj [])" by code_simp
  have k: "map_of ([] :: (string \<times> json) list) ''prompt'' = None" by simp
  have v: "session_or_fresh platform (map_of ([] :: (string \<times> json) list) ''sessionId'') =
       JStr ''0f8fad5b-d9cb-469f-a165-70867728950e'' \<and>
     JSON_stringify platform (JObj []) = ''{}''" by code_simp
  from object_without_prompt [OF b j k, of sample_module] v show ?thesis by simp
qed

text \<open>
  For every body that is valid JSON, as first stated, the property fails: \<^verbatim>\<open>null\<close> is
  valid JSON without a \<^verbatim>\<open>prompt\<close> field, reading its \<^verbatim>\<open>sessionId\<close> raises a
  \<^verbatim>\<open>TypeError\<close>, and the backend is not called.
\<close>

theorem null_body_rejected:
  "JSON_parse platform ''null'' = Inr JNull \<and>
   parseClientRequest platform (post ''null'') =
     Inl (JsError ''Cannot access property sessionId of null'') \<and>
   calls (snd (handler sample_module platform (post ''null''))) = []"
  by code_simp

end
